theory Spec2Isabelle
  imports Main "HOL-Library.Word"
begin

section \<open>Common vocabulary of the three scripts\<close>

text \<open>
  The scripts are Node.js programs built on bitcoinjs-lib, ecpair, tiny-secp256k1 and
  fetch. Those packages are not part of the repository; every call into them is a
  parameter of the model (a field of an environment record), and what the scripts
  themselves do around the calls is translated line by line.

  A JavaScript call either returns or throws an \<open>Error\<close> with a message.
  Strings are lists of 8-bit characters; \<open>toLowerCase\<close> and \<open>trim\<close> act on the
  ASCII letters and the ASCII white space.
\<close>

datatype 'a completion = Normal 'a | Throw string

datatype network = networks_bitcoin | networks_testnet | networks_signet | networks_regtest

type_synonym bytes = "8 word list"

record 'e run =
  exit_code :: nat
  trace :: "'e list"

definition toLowerCase_char :: "char \<Rightarrow> char" where
  "toLowerCase_char c =
     (case map_of (zip ''ABCDEFGHIJKLMNOPQRSTUVWXYZ'' ''abcdefghijklmnopqrstuvwxyz'') c of
        Some l \<Rightarrow> l
      | None \<Rightarrow> c)"

definition toLowerCase :: "string \<Rightarrow> string" where
  "toLowerCase s = map toLowerCase_char s"

definition is_white_space :: "char \<Rightarrow> bool" where
  "is_white_space c = (c \<in> set [CHR 0x20, CHR 0x09, CHR 0x0A, CHR 0x0B, CHR 0x0C, CHR 0x0D])"

definition trim :: "string \<Rightarrow> string" where
  "trim s = rev (dropWhile is_white_space (rev (dropWhile is_white_space s)))"

text \<open>\<open>Buffer.toString('hex')\<close>: two lower-case hexadecimal digits per byte.\<close>

definition hex_digit :: "nat \<Rightarrow> char" where
  "hex_digit n = ''0123456789abcdef'' ! (n mod 16)"

definition toString_hex :: "bytes \<Rightarrow> string" where
  "toString_hex bs = concat (map (\<lambda>b. [hex_digit (unat b div 16), hex_digit (unat b mod 16)]) bs)"

text \<open>
  A command-line argument is absent (\<open>undefined\<close>) or a string; \<open>!arg\<close> holds for an
  absent argument and for the empty string.
\<close>

definition falsy :: "string option \<Rightarrow> bool" where
  "falsy arg = (arg = None \<or> arg = Some [])"

text \<open>
  \<open>name || ''\<close>, which is also the string of an argument known to be present, and the
  interpolation \<open>${name}\<close>.
\<close>

definition or_empty :: "string option \<Rightarrow> string" where
  "or_empty name = (case name of None \<Rightarrow> [] | Some s \<Rightarrow> s)"

definition template_arg :: "string option \<Rightarrow> string" where
  "template_arg name = (case name of None \<Rightarrow> ''undefined'' | Some s \<Rightarrow> s)"

record keyPair =
  publicKey :: bytes
  privateKey :: bytes

record keylib =
  ECPair_fromWIF :: "string \<Rightarrow> network \<Rightarrow> keyPair completion"
  payments_p2wpkh_address :: "bytes \<Rightarrow> network \<Rightarrow> string completion"


section \<open>sign\_and\_broadcast.js\<close>

subsection \<open>Network resolution\<close>

definition getNetwork :: "string option \<Rightarrow> network completion" where
  "getNetwork name =
     (let n = toLowerCase (or_empty name) in
      if n = ''mainnet'' \<or> n = ''bitcoin'' then Normal networks_bitcoin
      else if n = ''testnet'' then Normal networks_testnet
      else if n = ''signet'' then Normal networks_signet
      else if n = ''regtest'' then Normal networks_regtest
      else Throw (''Unknown network: '' @ template_arg name))"

definition broadcastUrl :: "string option \<Rightarrow> string completion" where
  "broadcastUrl name =
     (let n = toLowerCase (or_empty name) in
      if n = ''mainnet'' \<or> n = ''bitcoin'' then Normal ''https://blockstream.info/api/tx''
      else if n = ''testnet'' then Normal ''https://blockstream.info/testnet/api/tx''
      else if n = ''signet'' then Normal ''https://mempool.space/signet/api/tx''
      else if n = ''regtest'' then Throw ''No public broadcaster for regtest.''
      else Throw (''Unknown network: '' @ template_arg name))"

subsection \<open>The external interface\<close>

text \<open>
  The PSBT object \<open>'p\<close> and the extracted transaction \<open>'t\<close> belong to bitcoinjs-lib.
  The PSBT is mutated in place, so a method takes the object and returns it, also when
  it throws. \<open>inputCount\<close> is a getter, read again at every test of the loop.
\<close>

record signer =
  signer_publicKey :: bytes
  signer_sign :: "bytes \<Rightarrow> bytes completion"

record post_response =
  resp_ok :: bool
  resp_status :: nat
  resp_text :: "string completion"

record ('p, 't) sign_env = keylib +
  Psbt_fromBase64 :: "string \<Rightarrow> network \<Rightarrow> 'p completion"
  SIGHASH_ALL :: nat
  ecc_sign :: "bytes \<Rightarrow> bytes \<Rightarrow> bytes completion"
  ecc_verify :: "bytes \<Rightarrow> bytes \<Rightarrow> bytes \<Rightarrow> bool completion"
  inputCount :: "'p \<Rightarrow> nat"
  signInput :: "nat \<Rightarrow> signer \<Rightarrow> nat list \<Rightarrow> 'p \<Rightarrow> unit completion \<times> 'p"
  validateSignaturesOfAllInputs ::
    "(bytes \<Rightarrow> bytes \<Rightarrow> bytes \<Rightarrow> bool) \<Rightarrow> 'p \<Rightarrow> bool completion \<times> 'p"
  finalizeAllInputs :: "'p \<Rightarrow> unit completion \<times> 'p"
  extractTransaction :: "'p \<Rightarrow> 't completion \<times> 'p"
  toHex :: "'t \<Rightarrow> string"
  getId :: "'t \<Rightarrow> string"
  toBase64 :: "'p \<Rightarrow> string"
  fetch_post :: "string \<Rightarrow> string \<Rightarrow> post_response completion"

text \<open>
  What a run does that can be observed: the lines it prints and the calls it makes on
  the PSBT and on the network, in order.
\<close>

datatype event =
    console_error_usage
  | console_log_address string
  | call_signInput nat
  | console_log_signInput_failed nat string
  | console_error_no_inputs_signed
  | call_validateSignaturesOfAllInputs
  | call_finalizeAllInputs
  | call_extractTransaction
  | console_log_signed_tx string string string
  | call_fetch string string
  | console_error_broadcast_failed nat string
  | console_log_broadcast_success string
  | console_error_Error string

subsection \<open>The signer and the validator objects\<close>

definition make_signer :: "('p, 't, 'z) sign_env_scheme \<Rightarrow> keyPair \<Rightarrow> signer" where
  "make_signer X kp =
     \<lparr>signer_publicKey = publicKey kp,
      signer_sign = (\<lambda>hash. ecc_sign X hash (privateKey kp))\<rparr>"

definition validator :: "('p, 't, 'z) sign_env_scheme \<Rightarrow> bytes \<Rightarrow> bytes \<Rightarrow> bytes \<Rightarrow> bool" where
  "validator X pubkey msghash signature =
     (case ecc_verify X msghash pubkey signature of Normal b \<Rightarrow> b | Throw m \<Rightarrow> False)"

subsection \<open>The signing loop\<close>

partial_function (option) sign_loop ::
  "('p, 't, 'z) sign_env_scheme \<Rightarrow> signer \<Rightarrow> nat \<Rightarrow> 'p \<Rightarrow> nat \<Rightarrow> event list
     \<Rightarrow> ('p \<times> nat \<times> event list) option"
where
  "sign_loop X sg i psbt n_signed tr =
     (if i < inputCount X psbt then
        (case signInput X i sg [SIGHASH_ALL X] psbt of
           (Normal u, psbt') \<Rightarrow>
             sign_loop X sg (i + 1) psbt' (n_signed + 1) (tr @ [call_signInput i])
         | (Throw m, psbt') \<Rightarrow>
             sign_loop X sg (i + 1) psbt' n_signed
               (tr @ [call_signInput i, console_log_signInput_failed i m]))
      else Some (psbt, n_signed, tr))"

declare sign_loop.simps [code]

text \<open>
  Reading a trace: the events the loop writes, the indices it called \<open>signInput\<close> on
  and the indices it logged as failed.
\<close>

fun is_sign_event :: "event \<Rightarrow> bool" where
  "is_sign_event (call_signInput i) = True"
| "is_sign_event (console_log_signInput_failed i m) = True"
| "is_sign_event e = False"

fun attempted :: "event list \<Rightarrow> nat list" where
  "attempted [] = []"
| "attempted (call_signInput i # es) = i # attempted es"
| "attempted (e # es) = attempted es"

fun skipped :: "event list \<Rightarrow> nat list" where
  "skipped [] = []"
| "skipped (console_log_signInput_failed i m # es) = i # skipped es"
| "skipped (e # es) = skipped es"

text \<open>Whether the call \<open>psbt.signInput(j, signer, [SIGHASH_ALL])\<close> returns on a PSBT.\<close>

definition signInput_returns :: "('p, 't, 'z) sign_env_scheme \<Rightarrow> signer \<Rightarrow> 'p \<Rightarrow> nat \<Rightarrow> bool" where
  "signInput_returns X sg psbt j = (fst (signInput X j sg [SIGHASH_ALL X] psbt) = Normal ())"

subsection \<open>The session: sign, validate, finalize, extract, broadcast\<close>

definition fatal :: "event list \<Rightarrow> string \<Rightarrow> event run" where
  "fatal tr m = \<lparr>exit_code = 1, trace = tr @ [console_error_Error m]\<rparr>"

definition broadcast ::
  "('p, 't, 'z) sign_env_scheme \<Rightarrow> string option \<Rightarrow> string \<Rightarrow> event list \<Rightarrow> event run" where
  "broadcast X netArg txHex tr =
     (case broadcastUrl netArg of
        Throw m \<Rightarrow> fatal tr m
      | Normal url \<Rightarrow>
          (case fetch_post X url txHex of
             Throw m \<Rightarrow> fatal (tr @ [call_fetch url txHex]) m
           | Normal resp \<Rightarrow>
               (case resp_text resp of
                  Throw m \<Rightarrow> fatal (tr @ [call_fetch url txHex]) m
                | Normal body \<Rightarrow>
                    if \<not> resp_ok resp then
                      \<lparr>exit_code = 3,
                       trace = tr @ [call_fetch url txHex,
                                     console_error_broadcast_failed (resp_status resp) body]\<rparr>
                    else
                      \<lparr>exit_code = 0,
                       trace = tr @ [call_fetch url txHex,
                                     console_log_broadcast_success (trim body)]\<rparr>)))"

definition validate_finalize_extract ::
  "('p, 't, 'z) sign_env_scheme \<Rightarrow> string option \<Rightarrow> 'p \<Rightarrow> event list \<Rightarrow> event run" where
  "validate_finalize_extract X netArg psbt tr =
     (case validateSignaturesOfAllInputs X (validator X) psbt of
        (Throw m, psbt1) \<Rightarrow> fatal (tr @ [call_validateSignaturesOfAllInputs]) m
      | (Normal valid, psbt1) \<Rightarrow>
          if \<not> valid then
            fatal (tr @ [call_validateSignaturesOfAllInputs]) ''Signature validation failed''
          else
            (case finalizeAllInputs X psbt1 of
               (Throw m, psbt2) \<Rightarrow>
                 fatal (tr @ [call_validateSignaturesOfAllInputs, call_finalizeAllInputs]) m
             | (Normal u, psbt2) \<Rightarrow>
                 (case extractTransaction X psbt2 of
                    (Throw m, psbt3) \<Rightarrow>
                      fatal (tr @ [call_validateSignaturesOfAllInputs, call_finalizeAllInputs,
                                   call_extractTransaction]) m
                  | (Normal tx, psbt3) \<Rightarrow>
                      broadcast X netArg (toHex X tx)
                        (tr @ [call_validateSignaturesOfAllInputs, call_finalizeAllInputs,
                               call_extractTransaction,
                               console_log_signed_tx (getId X tx) (toHex X tx)
                                 (toBase64 X psbt3)]))))"

definition session ::
  "('p, 't, 'z) sign_env_scheme \<Rightarrow> string option \<Rightarrow> keyPair \<Rightarrow> 'p \<Rightarrow> event list
     \<Rightarrow> event run option" where
  "session X netArg kp psbt tr =
     (case sign_loop X (make_signer X kp) 0 psbt 0 tr of
        None \<Rightarrow> None
      | Some (psbt1, n_signed, tr1) \<Rightarrow>
          if n_signed = 0 then
            Some \<lparr>exit_code = 2, trace = tr1 @ [console_error_no_inputs_signed]\<rparr>
          else Some (validate_finalize_extract X netArg psbt1 tr1))"

definition sign_and_broadcast ::
  "('p, 't, 'z) sign_env_scheme \<Rightarrow> string option \<Rightarrow> string option \<Rightarrow> string option
     \<Rightarrow> event run option" where
  "sign_and_broadcast X netArg wif psbtB64 =
     (if falsy netArg \<or> falsy wif \<or> falsy psbtB64 then
        Some \<lparr>exit_code = 1, trace = [console_error_usage]\<rparr>
      else
        (case getNetwork netArg of
           Throw m \<Rightarrow> Some (fatal [] m)
         | Normal net \<Rightarrow>
             (case ECPair_fromWIF X (or_empty wif) net of
                Throw m \<Rightarrow> Some (fatal [] m)
              | Normal kp \<Rightarrow>
                  (case payments_p2wpkh_address X (publicKey kp) net of
                     Throw m \<Rightarrow> Some (fatal [] m)
                   | Normal addr \<Rightarrow>
                       (case Psbt_fromBase64 X (or_empty psbtB64) net of
                          Throw m \<Rightarrow> Some (fatal [console_log_address addr] m)
                        | Normal psbt \<Rightarrow>
                            session X netArg kp psbt [console_log_address addr])))))"


section \<open>fetch\_utxos\_and\_build.js\<close>

text \<open>
  The block explorer answers with a JSON array of objects. An object is a finite map
  from property names to values of a type \<open>'v\<close> the script never looks into; a missing
  property reads as \<open>undefined\<close> (\<open>None\<close>). \<open>parseInt\<close> is the built-in, yielding a
  JavaScript number \<open>'n\<close>.
\<close>

type_synonym 'v utxo = "string \<rightharpoonup> 'v"

record 'v get_response =
  get_ok :: bool
  statusText :: string
  json :: "'v utxo list completion"

record ('v, 'n) build_env = keylib +
  address_toOutputScript :: "string \<Rightarrow> network \<Rightarrow> bytes completion"
  fetch_get :: "string \<Rightarrow> 'v get_response completion"
  parseInt :: "string \<Rightarrow> nat \<Rightarrow> 'n"

datatype js_null = null

record 'v input_descriptor =
  txid :: "'v option"
  vout :: "'v option"
  amount_sats :: "'v option"
  script_pubkey_hex :: string
  sequence :: js_null

record ('v, 'n) transferInput =
  network :: string
  to_address :: string
  amount_btc :: string
  change_address :: string
  fee_rate_sat_per_vb :: 'n
  assume_taproot :: bool
  utxos :: "'v input_descriptor list"

datatype ('v, 'n) build_event =
    build_console_error_usage
  | console_log_derived_address string
  | call_fetch_utxo string
  | console_error_fetching_utxos string
  | console_error_no_utxos
  | console_log_transferInput "('v, 'n) transferInput"
  | console_error_rejection string

definition getP2WPKHScriptPubKeyHex ::
  "('v, 'n, 'z) build_env_scheme \<Rightarrow> string \<Rightarrow> network \<Rightarrow> string completion" where
  "getP2WPKHScriptPubKeyHex X address net =
     (case address_toOutputScript X address net of
        Throw m \<Rightarrow> Throw m
      | Normal payment \<Rightarrow> Normal (toString_hex payment))"

text \<open>\<open>utxos.map(u => ...)\<close>; the callback can throw, which ends the map.\<close>

fun map_utxos ::
  "('v, 'n, 'z) build_env_scheme \<Rightarrow> string \<Rightarrow> network \<Rightarrow> 'v utxo list
     \<Rightarrow> 'v input_descriptor list completion" where
  "map_utxos X fromAddress net [] = Normal []"
| "map_utxos X fromAddress net (u # us) =
     (case getP2WPKHScriptPubKeyHex X fromAddress net of
        Throw m \<Rightarrow> Throw m
      | Normal hex \<Rightarrow>
          (case map_utxos X fromAddress net us of
             Throw m \<Rightarrow> Throw m
           | Normal ds \<Rightarrow>
               Normal (\<lparr>txid = u ''txid'', vout = u ''vout'', amount_sats = u ''value'',
                        script_pubkey_hex = hex, sequence = null\<rparr> # ds)))"

definition select_network :: "string option \<Rightarrow> network" where
  "select_network netArg =
     (if toLowerCase (or_empty netArg) = ''testnet'' then networks_testnet else networks_bitcoin)"

definition utxo_url :: "network \<Rightarrow> string \<Rightarrow> string" where
  "utxo_url net fromAddress =
     (let baseUrl = (if net = networks_testnet
                     then ''https://blockstream.info/testnet/api''
                     else ''https://blockstream.info/api'')
      in baseUrl @ ''/address/'' @ fromAddress @ ''/utxo'')"

definition rejected :: "('v, 'n) build_event list \<Rightarrow> string \<Rightarrow> ('v, 'n) build_event run" where
  "rejected tr m = \<lparr>exit_code = 0, trace = tr @ [console_error_rejection m]\<rparr>"

definition fetch_utxos_and_build ::
  "('v, 'n, 'z) build_env_scheme \<Rightarrow> string option \<Rightarrow> string option \<Rightarrow> string option
     \<Rightarrow> string option \<Rightarrow> string option \<Rightarrow> ('v, 'n) build_event run" where
  "fetch_utxos_and_build X netArg wif toAddress amountBtc feeRate =
     (if falsy netArg \<or> falsy wif \<or> falsy toAddress \<or> falsy amountBtc \<or> falsy feeRate then
        \<lparr>exit_code = 1, trace = [build_console_error_usage]\<rparr>
      else
        let net = select_network netArg in
        (case ECPair_fromWIF X (or_empty wif) net of
           Throw m \<Rightarrow> rejected [] m
         | Normal kp \<Rightarrow>
             (case payments_p2wpkh_address X (publicKey kp) net of
                Throw m \<Rightarrow> rejected [] m
              | Normal fromAddress \<Rightarrow>
                  let url = utxo_url net fromAddress;
                      tr = [console_log_derived_address fromAddress, call_fetch_utxo url]
                  in
                  (case fetch_get X url of
                     Throw m \<Rightarrow> rejected tr m
                   | Normal utxosRes \<Rightarrow>
                       if \<not> get_ok utxosRes then
                         \<lparr>exit_code = 1,
                          trace = tr @ [console_error_fetching_utxos (statusText utxosRes)]\<rparr>
                       else
                         (case json utxosRes of
                            Throw m \<Rightarrow> rejected tr m
                          | Normal us \<Rightarrow>
                              if length us = 0 then
                                \<lparr>exit_code = 1, trace = tr @ [console_error_no_utxos]\<rparr>
                              else
                                (case map_utxos X fromAddress net us of
                                   Throw m \<Rightarrow> rejected tr m
                                 | Normal ds \<Rightarrow>
                                     \<lparr>exit_code = 0,
                                      trace = tr @ [console_log_transferInput
                                        \<lparr>network = toLowerCase (or_empty netArg),
                                         to_address = or_empty toAddress,
                                         amount_btc = or_empty amountBtc,
                                         change_address = fromAddress,
                                         fee_rate_sat_per_vb = parseInt X (or_empty feeRate) 10,
                                         assume_taproot = False,
                                         utxos = ds\<rparr>]\<rparr>))))))"


section \<open>inspect\_psbt.js\<close>

text \<open>
  The script takes one argument, the PSBT. \<open>psbt.data.inputs\<close> is the list of the
  inputs' metadata; an error that nothing catches ends the process with code 1.
\<close>

record 'n witness_utxo =
  wu_script :: bytes
  wu_value :: 'n

record 'n psbt_input =
  witnessUtxo :: "'n witness_utxo option"

record 'n inspect_env =
  Psbt_fromBase64_data_inputs :: "string option \<Rightarrow> 'n psbt_input list completion"
  address_fromOutputScript :: "bytes \<Rightarrow> network \<Rightarrow> string completion"

datatype 'n inspect_event =
    console_log_Input nat
  | console_log_Value 'n
  | console_log_ScriptPubKey_hex string
  | console_log_Address string
  | console_log_Missing_witnessUtxo
  | uncaught_Error string

fun inspect_inputs ::
  "('n, 'z) inspect_env_scheme \<Rightarrow> nat \<Rightarrow> 'n psbt_input list \<Rightarrow> 'n inspect_event list
     \<Rightarrow> 'n inspect_event run" where
  "inspect_inputs X idx [] tr = \<lparr>exit_code = 0, trace = tr\<rparr>"
| "inspect_inputs X idx (input # rest) tr =
     (case witnessUtxo input of
        Some wu \<Rightarrow>
          (case address_fromOutputScript X (wu_script wu) networks_testnet of
             Throw m \<Rightarrow>
               \<lparr>exit_code = 1,
                trace = tr @ [console_log_Input idx, console_log_Value (wu_value wu),
                              console_log_ScriptPubKey_hex (toString_hex (wu_script wu)),
                              uncaught_Error m]\<rparr>
           | Normal a \<Rightarrow>
               inspect_inputs X (idx + 1) rest
                 (tr @ [console_log_Input idx, console_log_Value (wu_value wu),
                        console_log_ScriptPubKey_hex (toString_hex (wu_script wu)),
                        console_log_Address a]))
      | None \<Rightarrow>
          inspect_inputs X (idx + 1) rest
            (tr @ [console_log_Input idx, console_log_Missing_witnessUtxo]))"

definition inspect_psbt :: "('n, 'z) inspect_env_scheme \<Rightarrow> string option \<Rightarrow> 'n inspect_event run" where
  "inspect_psbt X psbtBase64 =
     (case Psbt_fromBase64_data_inputs X psbtBase64 of
        Throw m \<Rightarrow> \<lparr>exit_code = 1, trace = [uncaught_Error m]\<rparr>
      | Normal inputs \<Rightarrow> inspect_inputs X 0 inputs [])"


section \<open>A small instance of the external interface\<close>

text \<open>
  To run the model on concrete inputs: a PSBT is a list of inputs, each with the script
  of the output it spends; a key signs the inputs whose script is its public key and
  that carry no signature yet, a second signature on an input being refused; a
  signature is the private key followed by the digest, and verifies when it is the
  public key followed by the digest. Nothing about the packages is derived from it.
\<close>

record toy_input =
  prevout_script :: bytes
  partial_sig :: "bytes option"
  finalized :: bool

definition toy_signInput ::
  "nat \<Rightarrow> signer \<Rightarrow> nat list \<Rightarrow> toy_input list \<Rightarrow> unit completion \<times> toy_input list" where
  "toy_signInput i sg sighashTypes p =
     (if i < length p \<and> prevout_script (p ! i) = signer_publicKey sg then
        (case partial_sig (p ! i) of
           Some s \<Rightarrow> (Throw ''Can not add duplicate data to array'', p)
         | None \<Rightarrow>
             (case signer_sign sg [] of
                Normal s \<Rightarrow> (Normal (), p[i := (p ! i)\<lparr>partial_sig := Some s\<rparr>])
              | Throw m \<Rightarrow> (Throw m, p)))
      else (Throw ''Can not sign for this input with the key'', p))"

definition toy_validate ::
  "(bytes \<Rightarrow> bytes \<Rightarrow> bytes \<Rightarrow> bool) \<Rightarrow> toy_input list \<Rightarrow> bool completion \<times> toy_input list" where
  "toy_validate v p =
     (Normal (list_all (\<lambda>inp. case partial_sig inp of
                                 None \<Rightarrow> True
                               | Some s \<Rightarrow> v (prevout_script inp) [] s) p), p)"

definition toy_finalize :: "toy_input list \<Rightarrow> unit completion \<times> toy_input list" where
  "toy_finalize p =
     (if list_all (\<lambda>inp. partial_sig inp \<noteq> None) p
      then (Normal (), map (\<lambda>inp. inp\<lparr>finalized := True\<rparr>) p)
      else (Throw ''Can not finalize input'', p))"

definition toy_extract :: "toy_input list \<Rightarrow> string completion \<times> toy_input list" where
  "toy_extract p =
     (if list_all finalized p then (Normal ''tx'', p) else (Throw ''Not finalized'', p))"

definition toy_env :: "(toy_input list, string) sign_env" where
  "toy_env =
     \<lparr>ECPair_fromWIF = (\<lambda>wif net. Normal \<lparr>publicKey = [7], privateKey = [7]\<rparr>),
      payments_p2wpkh_address = (\<lambda>pubkey net. Normal ''tb1qowner''),
      Psbt_fromBase64 = (\<lambda>b64 net. Normal []),
      SIGHASH_ALL = 1,
      ecc_sign = (\<lambda>hash d. Normal (d @ hash)),
      ecc_verify = (\<lambda>hash q s. Normal (s = q @ hash)),
      inputCount = length,
      signInput = toy_signInput,
      validateSignaturesOfAllInputs = toy_validate,
      finalizeAllInputs = toy_finalize,
      extractTransaction = toy_extract,
      toHex = (\<lambda>tx. ''00''),
      getId = (\<lambda>tx. ''id''),
      toBase64 = (\<lambda>p. ''cHNidP8=''),
      fetch_post = (\<lambda>url body. Normal \<lparr>resp_ok = True, resp_status = 200, resp_text = Normal ''id''\<rparr>)\<rparr>"

definition toy_matches :: "bytes \<Rightarrow> toy_input list \<Rightarrow> nat \<Rightarrow> bool" where
  "toy_matches pk p i = (i < length p \<and> prevout_script (p ! i) = pk)"

definition owned :: toy_input where
  "owned = \<lparr>prevout_script = [7], partial_sig = None, finalized = False\<rparr>"

definition foreign :: toy_input where
  "foreign = \<lparr>prevout_script = [8], partial_sig = None, finalized = False\<rparr>"

definition owned_signed :: toy_input where
  "owned_signed = \<lparr>prevout_script = [7], partial_sig = Some [7], finalized = False\<rparr>"

definition foreign_signed :: toy_input where
  "foreign_signed = \<lparr>prevout_script = [8], partial_sig = Some [8], finalized = False\<rparr>"


text \<open>
  For the request builder: one key, whose address has one unspent output on testnet and
  none on mainnet. The explorer's answer carries a \<open>scriptpubkey\<close> property of its
  own, which the script does not read.
\<close>

datatype toy_json = JString string | JNumber int

definition toy_utxo :: "toy_json utxo" where
  "toy_utxo = [''txid'' \<mapsto> JString ''aa'', ''vout'' \<mapsto> JNumber 0, ''value'' \<mapsto> JNumber 20000,
               ''scriptpubkey'' \<mapsto> JString ''6a'']"

definition toy_build_env :: "(toy_json, int option) build_env" where
  "toy_build_env =
     \<lparr>ECPair_fromWIF = (\<lambda>wif net. Normal \<lparr>publicKey = [7], privateKey = [7]\<rparr>),
      payments_p2wpkh_address =
        (\<lambda>pubkey net. Normal (if net = networks_testnet then ''tb1qowner'' else ''bc1qowner'')),
      address_toOutputScript = (\<lambda>address net. Normal [0x00, 0x14, 0xAB]),
      fetch_get =
        (\<lambda>url. Normal \<lparr>get_ok = True, statusText = ''OK'',
                         json = Normal (if url = ''https://blockstream.info/testnet/api/address/tb1qowner/utxo''
                                        then [toy_utxo] else [])\<rparr>),
      parseInt = (\<lambda>s radix. if s = ''5'' then Some 5 else None)\<rparr>"

definition toy_transfer :: "(toy_json, int option) transferInput" where
  "toy_transfer =
     \<lparr>network = ''testnet'', to_address = ''tb1qdest'', amount_btc = ''0.00009'',
      change_address = ''tb1qowner'', fee_rate_sat_per_vb = Some 5, assume_taproot = False,
      utxos = [\<lparr>txid = Some (JString ''aa''), vout = Some (JNumber 0),
                amount_sats = Some (JNumber 20000), script_pubkey_hex = ''0014ab'',
                sequence = null\<rparr>]\<rparr>"

text \<open>
  The same key with an unspent output on every network, and an address encoder that
  shows the network it was asked for in the prefix of the address.
\<close>

definition toy_funded_env :: "(toy_json, int option) build_env" where
  "toy_funded_env =
     toy_build_env
       \<lparr>payments_p2wpkh_address :=
          (\<lambda>pubkey net. Normal ((case net of networks_bitcoin \<Rightarrow> ''bc1q''
                                              | networks_testnet \<Rightarrow> ''tb1q''
                                              | networks_signet \<Rightarrow> ''tb1q''
                                              | networks_regtest \<Rightarrow> ''bcrt1q'') @ ''owner'')),
        fetch_get :=
          (\<lambda>url. Normal \<lparr>get_ok = True, statusText = ''OK'', json = Normal [toy_utxo]\<rparr>)\<rparr>"

definition toy_regtest_transfer :: "(toy_json, int option) transferInput" where
  "toy_regtest_transfer =
     \<lparr>network = ''regtest'', to_address = ''bcrt1qdest'', amount_btc = ''0.00009'',
      change_address = ''bc1qowner'', fee_rate_sat_per_vb = Some 5, assume_taproot = False,
      utxos = [\<lparr>txid = Some (JString ''aa''), vout = Some (JNumber 0),
                amount_sats = Some (JNumber 20000), script_pubkey_hex = ''0014ab'',
                sequence = null\<rparr>]\<rparr>"

text \<open>
  For the inspection: a PSBT with one P2WPKH input, and an address encoder that shows
  the network it was asked for in the prefix of the address.
\<close>

definition toy_inspect_env :: "nat inspect_env" where
  "toy_inspect_env =
     \<lparr>Psbt_fromBase64_data_inputs =
        (\<lambda>b64. Normal [\<lparr>witnessUtxo =
                          Some \<lparr>wu_script =
                                  [0x00, 0x14, 0xAB, 0xAB, 0xAB, 0xAB, 0xAB, 0xAB, 0xAB,
                                   0xAB, 0xAB, 0xAB, 0xAB, 0xAB, 0xAB, 0xAB, 0xAB, 0xAB,
                                   0xAB, 0xAB, 0xAB, 0xAB],
                                wu_value = 20000\<rparr>\<rparr>]),
      address_fromOutputScript =
        (\<lambda>script net. Normal ((case net of networks_bitcoin \<Rightarrow> ''bc1q''
                                           | networks_testnet \<Rightarrow> ''tb1q''
                                           | networks_signet \<Rightarrow> ''tb1q''
                                           | networks_regtest \<Rightarrow> ''bcrt1q'')
                                @ toString_hex (drop 2 script)))\<rparr>"


section \<open>The signing loop and what follows it\<close>

lemma sign_loop_extends_trace:
  assumes "sign_loop X sg i psbt n tr = Some r"
  shows "\<exists>evs. snd (snd r) = tr @ evs \<and> list_all is_sign_event evs"
proof (rule sign_loop.raw_induct
    [where P = "\<lambda>X sg i psbt n tr r. \<exists>evs. snd (snd r) = tr @ evs \<and> list_all is_sign_event evs",
      OF _ assms])
  fix f :: "('a, 'b, 'c) sign_env_scheme \<Rightarrow> signer \<Rightarrow> nat \<Rightarrow> 'a \<Rightarrow> nat \<Rightarrow> event list
              \<Rightarrow> ('a \<times> nat \<times> event list) option"
    and X sg i psbt n_signed tr r
  assume IH: "\<And>X sg i psbt n_signed tr r. f X sg i psbt n_signed tr = Some r \<Longrightarrow>
                \<exists>evs. snd (snd r) = tr @ evs \<and> list_all is_sign_event evs"
    and step: "(if i < inputCount X psbt then
        (case signInput X i sg [SIGHASH_ALL X] psbt of
           (Normal u, psbt') \<Rightarrow>
             f X sg (i + 1) psbt' (n_signed + 1) (tr @ [call_signInput i])
         | (Throw m, psbt') \<Rightarrow>
             f X sg (i + 1) psbt' n_signed
               (tr @ [call_signInput i, console_log_signInput_failed i m]))
      else Some (psbt, n_signed, tr)) = Some r"
  show "\<exists>evs. snd (snd r) = tr @ evs \<and> list_all is_sign_event evs"
  proof (cases "i < inputCount X psbt")
    case False
    with step show ?thesis by auto
  next
    case True
    obtain c psbt' where s: "signInput X i sg [SIGHASH_ALL X] psbt = (c, psbt')"
      by (cases "signInput X i sg [SIGHASH_ALL X] psbt")
    show ?thesis
    proof (cases c)
      case (Normal u)
      with step True s
      have "f X sg (i + 1) psbt' (n_signed + 1) (tr @ [call_signInput i]) = Some r"
        by simp
      from IH[OF this] obtain evs where
        "snd (snd r) = (tr @ [call_signInput i]) @ evs" "list_all is_sign_event evs" by blast
      then have "snd (snd r) = tr @ (call_signInput i # evs)
                 \<and> list_all is_sign_event (call_signInput i # evs)"
        by simp
      then show ?thesis by blast
    next
      case (Throw m)
      with step True s
      have "f X sg (i + 1) psbt' n_signed
              (tr @ [call_signInput i, console_log_signInput_failed i m]) = Some r"
        by simp
      from IH[OF this] obtain evs where
        "snd (snd r) = (tr @ [call_signInput i, console_log_signInput_failed i m]) @ evs"
        "list_all is_sign_event evs" by blast
      then have "snd (snd r) = tr @ (call_signInput i # console_log_signInput_failed i m # evs)
                 \<and> list_all is_sign_event
                       (call_signInput i # console_log_signInput_failed i m # evs)"
        by simp
      then show ?thesis by blast
    qed
  qed
qed

text \<open>
  C1. When the signatures do not verify, nothing is finalized: if the signing loop ends
  with at least one input signed and \<open>validateSignaturesOfAllInputs\<close> returns
  \<open>false\<close> on the signed PSBT, the run ends there with exit code 1 and the error
  ``Signature validation failed'', and \<open>finalizeAllInputs\<close> has not been called.
\<close>

theorem unverified_signatures_are_never_finalized:
  assumes loop: "sign_loop X (make_signer X kp) 0 psbt 0 tr = Some (psbt1, n_signed, tr1)"
    and some: "n_signed \<noteq> 0"
    and invalid: "validateSignaturesOfAllInputs X (validator X) psbt1 = (Normal False, psbt2)"
    and before: "call_finalizeAllInputs \<notin> set tr"
  shows "session X netArg kp psbt tr =
           Some \<lparr>exit_code = 1,
                 trace = tr1 @ [call_validateSignaturesOfAllInputs,
                                console_error_Error ''Signature validation failed'']\<rparr>
         \<and> call_finalizeAllInputs \<notin>
             set (tr1 @ [call_validateSignaturesOfAllInputs,
                         console_error_Error ''Signature validation failed''])"
proof -
  from sign_loop_extends_trace[OF loop] obtain evs where
    evs: "tr1 = tr @ evs" "list_all is_sign_event evs" by auto
  have "call_finalizeAllInputs \<notin> set evs"
  proof
    assume "call_finalizeAllInputs \<in> set evs"
    with evs(2) have "is_sign_event call_finalizeAllInputs" by (auto simp: list_all_iff)
    then show False by simp
  qed
  with before evs(1) have "call_finalizeAllInputs \<notin> set tr1" by simp
  moreover have "session X netArg kp psbt tr =
           Some \<lparr>exit_code = 1,
                 trace = tr1 @ [call_validateSignaturesOfAllInputs,
                                console_error_Error ''Signature validation failed'']\<rparr>"
    using loop some invalid
    by (simp add: session_def validate_finalize_extract_def fatal_def)
  ultimately show ?thesis by simp
qed


lemma toy_sign_loop_mismatched_key:
  "sign_loop toy_env (make_signer toy_env \<lparr>publicKey = [7], privateKey = [9]\<rparr>) 0
       [owned, foreign] 0 [] =
     Some ([owned\<lparr>partial_sig := Some [9]\<rparr>, foreign], 1,
           [call_signInput 0, call_signInput 1,
            console_log_signInput_failed 1 ''Can not sign for this input with the key''])"
  by code_simp

theorem unverified_signatures_are_never_finalized_witness:
  "session toy_env (Some ''testnet'') \<lparr>publicKey = [7], privateKey = [9]\<rparr> [owned, foreign] [] =
     Some \<lparr>exit_code = 1,
           trace = [call_signInput 0, call_signInput 1,
                    console_log_signInput_failed 1 ''Can not sign for this input with the key'',
                    call_validateSignaturesOfAllInputs,
                    console_error_Error ''Signature validation failed'']\<rparr>"
proof -
  have v: "validateSignaturesOfAllInputs toy_env (validator toy_env)
             [owned\<lparr>partial_sig := Some [9]\<rparr>, foreign]
           = (Normal False, [owned\<lparr>partial_sig := Some [9]\<rparr>, foreign])"
    by code_simp
  have n: "(1::nat) \<noteq> 0" by simp
  have b: "call_finalizeAllInputs \<notin> set []" by simp
  from unverified_signatures_are_never_finalized[OF toy_sign_loop_mismatched_key n v b, of "Some ''testnet''"]
  show ?thesis by simp
qed

lemma sign_loop_counts:
  assumes cnt: "\<And>j p. inputCount X (snd (signInput X j sg [SIGHASH_ALL X] p)) = inputCount X p"
    and indep: "\<And>l j p. l < j \<Longrightarrow>
                  signInput_returns X sg (snd (signInput X l sg [SIGHASH_ALL X] p)) j
                    = signInput_returns X sg p j"
  shows "\<exists>psbt1 evs.
           sign_loop X sg i psbt k tr =
             Some (psbt1,
                   k + length (filter (signInput_returns X sg psbt) [i..<inputCount X psbt]),
                   tr @ evs)
           \<and> attempted evs = [i..<inputCount X psbt]
           \<and> skipped evs =
               filter (\<lambda>j. \<not> signInput_returns X sg psbt j) [i..<inputCount X psbt]"
proof (induction "inputCount X psbt - i" arbitrary: i psbt k tr)
  case 0
  then have "\<not> i < inputCount X psbt" by simp
  then have "sign_loop X sg i psbt k tr = Some (psbt, k, tr @ [])"
    by (subst sign_loop.simps) simp
  moreover from \<open>\<not> i < inputCount X psbt\<close> have "[i..<inputCount X psbt] = []" by simp
  ultimately show ?case
    by (metis add_0_right attempted.simps(1) filter.simps(1) list.size(3) skipped.simps(1))
next
  case (Suc d)
  then have lt: "i < inputCount X psbt" by simp
  obtain c psbt' where s: "signInput X i sg [SIGHASH_ALL X] psbt = (c, psbt')"
    by (cases "signInput X i sg [SIGHASH_ALL X] psbt")
  have n': "inputCount X psbt' = inputCount X psbt" using cnt[of i psbt] s by simp
  have later: "signInput_returns X sg psbt' j = signInput_returns X sg psbt j" if "i < j" for j
    using indep[OF that, of psbt] s by simp
  have f1: "filter (signInput_returns X sg psbt') [i + 1..<inputCount X psbt]
              = filter (signInput_returns X sg psbt) [i + 1..<inputCount X psbt]"
    by (rule filter_cong) (auto simp: later)
  have f2: "filter (\<lambda>j. \<not> signInput_returns X sg psbt' j) [i + 1..<inputCount X psbt]
              = filter (\<lambda>j. \<not> signInput_returns X sg psbt j) [i + 1..<inputCount X psbt]"
    by (rule filter_cong) (auto simp: later)
  have c: "(c = Normal ()) = signInput_returns X sg psbt i"
    using s by (simp add: signInput_returns_def)
  have d: "d = inputCount X psbt' - (i + 1)" using Suc(2) n' by simp
  have upt: "[i..<inputCount X psbt] = i # [i + 1..<inputCount X psbt]"
    using lt by (simp add: upt_conv_Cons)
  show ?case
  proof (cases "signInput_returns X sg psbt i")
    case True
    with c have cN: "c = Normal ()" by simp
    from Suc(1)[OF d, of "k + 1" "tr @ [call_signInput i]"] obtain psbt1 evs where
      r: "sign_loop X sg (i + 1) psbt' (k + 1) (tr @ [call_signInput i]) =
            Some (psbt1,
                  (k + 1) + length (filter (signInput_returns X sg psbt')
                                      [i + 1..<inputCount X psbt']),
                  (tr @ [call_signInput i]) @ evs)"
      and a: "attempted evs = [i + 1..<inputCount X psbt']"
      and sk: "skipped evs =
                 filter (\<lambda>j. \<not> signInput_returns X sg psbt' j) [i + 1..<inputCount X psbt']"
      by blast
    have "sign_loop X sg i psbt k tr =
            Some (psbt1,
                  k + length (filter (signInput_returns X sg psbt) [i..<inputCount X psbt]),
                  tr @ (call_signInput i # evs))"
      using lt s cN r True n' f1 by (subst sign_loop.simps) (simp add: upt)
    moreover have "attempted (call_signInput i # evs) = [i..<inputCount X psbt]"
      using a n' by (simp add: upt)
    moreover have "skipped (call_signInput i # evs) =
                     filter (\<lambda>j. \<not> signInput_returns X sg psbt j) [i..<inputCount X psbt]"
      using sk n' f2 True by (simp add: upt)
    ultimately show ?thesis by blast
  next
    case False
    with c obtain m where cT: "c = Throw m" by (cases c) auto
    from Suc(1)[OF d, of k "tr @ [call_signInput i, console_log_signInput_failed i m]"]
    obtain psbt1 evs where
      r: "sign_loop X sg (i + 1) psbt' k
            (tr @ [call_signInput i, console_log_signInput_failed i m]) =
            Some (psbt1,
                  k + length (filter (signInput_returns X sg psbt')
                                [i + 1..<inputCount X psbt']),
                  (tr @ [call_signInput i, console_log_signInput_failed i m]) @ evs)"
      and a: "attempted evs = [i + 1..<inputCount X psbt']"
      and sk: "skipped evs =
                 filter (\<lambda>j. \<not> signInput_returns X sg psbt' j) [i + 1..<inputCount X psbt']"
      by blast
    have "sign_loop X sg i psbt k tr =
            Some (psbt1,
                  k + length (filter (signInput_returns X sg psbt) [i..<inputCount X psbt]),
                  tr @ (call_signInput i # console_log_signInput_failed i m # evs))"
      using lt s cT r False n' f1 by (subst sign_loop.simps) (simp add: upt)
    moreover have "attempted (call_signInput i # console_log_signInput_failed i m # evs) =
                     [i..<inputCount X psbt]"
      using a n' by (simp add: upt)
    moreover have "skipped (call_signInput i # console_log_signInput_failed i m # evs) =
                     filter (\<lambda>j. \<not> signInput_returns X sg psbt j) [i..<inputCount X psbt]"
      using sk n' f2 False by (simp add: upt)
    ultimately show ?thesis by blast
  qed
qed

lemma validation_follows:
  "exit_code (validate_finalize_extract X netArg psbt tr) \<noteq> 2
   \<and> (\<exists>rest. trace (validate_finalize_extract X netArg psbt tr)
                = tr @ call_validateSignaturesOfAllInputs # rest)"
  by (auto simp: validate_finalize_extract_def broadcast_def fatal_def
      split: prod.splits completion.splits)

text \<open>
  C3, as the code has it. The \<open>catch\<close> of lines 80--82 takes every exception of
  \<open>signInput\<close>, whatever its cause, so the loop counts the calls that returned, not
  the inputs that match the key. For a library whose \<open>signInput\<close> keeps the number of
  inputs and whose outcome on an input does not depend on the calls made on earlier
  inputs: the loop calls \<open>signInput\<close> on every index in order and never aborts, its
  count is the number of inputs on which \<open>signInput\<close> returns, the indices logged
  as failed are the others; when the count is zero the run exits with code 2 after
  ``No inputs were signed'' and validates nothing, and otherwise it does not exit with
  code 2 and goes on to validate the signed PSBT.
\<close>

theorem every_throw_is_a_skip_and_no_signature_is_fatal:
  assumes cnt: "\<And>j p. inputCount X (snd (signInput X j (make_signer X kp) [SIGHASH_ALL X] p))
                        = inputCount X p"
    and indep: "\<And>l j p. l < j \<Longrightarrow>
                  signInput_returns X (make_signer X kp)
                      (snd (signInput X l (make_signer X kp) [SIGHASH_ALL X] p)) j
                    = signInput_returns X (make_signer X kp) p j"
  shows "\<exists>psbt1 tr1.
           sign_loop X (make_signer X kp) 0 psbt 0 [] =
             Some (psbt1,
                   length (filter (signInput_returns X (make_signer X kp) psbt)
                             [0..<inputCount X psbt]),
                   tr1)
           \<and> attempted tr1 = [0..<inputCount X psbt]
           \<and> skipped tr1 =
               filter (\<lambda>j. \<not> signInput_returns X (make_signer X kp) psbt j)
                 [0..<inputCount X psbt]
           \<and> call_validateSignaturesOfAllInputs \<notin> set tr1
           \<and> (if filter (signInput_returns X (make_signer X kp) psbt) [0..<inputCount X psbt] = []
               then session X netArg kp psbt [] =
                      Some \<lparr>exit_code = 2, trace = tr1 @ [console_error_no_inputs_signed]\<rparr>
               else session X netArg kp psbt [] =
                      Some (validate_finalize_extract X netArg psbt1 tr1)
                    \<and> exit_code (validate_finalize_extract X netArg psbt1 tr1) \<noteq> 2
                    \<and> (\<exists>rest. trace (validate_finalize_extract X netArg psbt1 tr1)
                                 = tr1 @ call_validateSignaturesOfAllInputs # rest))"
proof -
  from sign_loop_counts[of X "make_signer X kp" 0 psbt 0 "[]", OF cnt indep]
  obtain psbt1 evs where
    r: "sign_loop X (make_signer X kp) 0 psbt 0 [] =
          Some (psbt1,
                length (filter (signInput_returns X (make_signer X kp) psbt)
                          [0..<inputCount X psbt]),
                evs)"
    and a: "attempted evs = [0..<inputCount X psbt]"
    and sk: "skipped evs =
               filter (\<lambda>j. \<not> signInput_returns X (make_signer X kp) psbt j)
                 [0..<inputCount X psbt]"
    by auto
  from sign_loop_extends_trace[OF r] have "list_all is_sign_event evs" by simp
  then have nv: "call_validateSignaturesOfAllInputs \<notin> set evs"
    by (auto simp: list_all_iff)
  have "if filter (signInput_returns X (make_signer X kp) psbt) [0..<inputCount X psbt] = []
        then session X netArg kp psbt [] =
               Some \<lparr>exit_code = 2, trace = evs @ [console_error_no_inputs_signed]\<rparr>
        else session X netArg kp psbt [] = Some (validate_finalize_extract X netArg psbt1 evs)
             \<and> exit_code (validate_finalize_extract X netArg psbt1 evs) \<noteq> 2
             \<and> (\<exists>rest. trace (validate_finalize_extract X netArg psbt1 evs)
                          = evs @ call_validateSignaturesOfAllInputs # rest)"
    using r validation_follows[of X netArg psbt1 evs] by (simp add: session_def)
  with r a sk nv show ?thesis by blast
qed

lemma toy_signInput_inputCount:
  "inputCount toy_env (snd (signInput toy_env j (make_signer toy_env kp) [SIGHASH_ALL toy_env] p))
     = inputCount toy_env p"
  by (simp add: toy_env_def toy_signInput_def make_signer_def split: option.splits)

lemma toy_signInput_independent:
  "l < j \<Longrightarrow>
     signInput_returns toy_env (make_signer toy_env kp)
         (snd (signInput toy_env l (make_signer toy_env kp) [SIGHASH_ALL toy_env] p)) j
       = signInput_returns toy_env (make_signer toy_env kp) p j"
  by (auto simp: signInput_returns_def toy_env_def toy_signInput_def make_signer_def
      nth_list_update split: option.splits)

text \<open>A PSBT of two owners, the other owner's input signed already: the run in full.\<close>

lemma toy_partly_owned_run:
  "session toy_env (Some ''testnet'') \<lparr>publicKey = [7], privateKey = [7]\<rparr>
       [owned, foreign_signed, owned] [] =
     Some \<lparr>exit_code = 0,
           trace = [call_signInput 0, call_signInput 1,
                    console_log_signInput_failed 1 ''Can not sign for this input with the key'',
                    call_signInput 2, call_validateSignaturesOfAllInputs,
                    call_finalizeAllInputs, call_extractTransaction,
                    console_log_signed_tx ''id'' ''00'' ''cHNidP8='',
                    call_fetch ''https://blockstream.info/testnet/api/tx'' ''00'',
                    console_log_broadcast_success ''id'']\<rparr>"
  by code_simp

theorem every_throw_is_a_skip_and_no_signature_is_fatal_witness:
  "\<exists>psbt1 tr1.
     sign_loop toy_env (make_signer toy_env \<lparr>publicKey = [7], privateKey = [7]\<rparr>) 0
         [owned, foreign_signed, owned] 0 [] = Some (psbt1, 2, tr1)
     \<and> attempted tr1 = [0, 1, 2] \<and> skipped tr1 = [1]
     \<and> session toy_env (Some ''testnet'') \<lparr>publicKey = [7], privateKey = [7]\<rparr>
           [owned, foreign_signed, owned] [] =
         Some (validate_finalize_extract toy_env (Some ''testnet'') psbt1 tr1)
     \<and> exit_code (validate_finalize_extract toy_env (Some ''testnet'') psbt1 tr1) \<noteq> 2"
proof -
  have f: "filter (signInput_returns toy_env
                     (make_signer toy_env \<lparr>publicKey = [7], privateKey = [7]\<rparr>)
                     [owned, foreign_signed, owned])
             [0..<inputCount toy_env [owned, foreign_signed, owned]] = [0, 2]"
    by code_simp
  have g: "filter (\<lambda>j. \<not> signInput_returns toy_env
                     (make_signer toy_env \<lparr>publicKey = [7], privateKey = [7]\<rparr>)
                     [owned, foreign_signed, owned] j)
             [0..<inputCount toy_env [owned, foreign_signed, owned]] = [1]"
    by code_simp
  have u: "[0..<inputCount toy_env [owned, foreign_signed, owned]] = [0, 1, 2]"
    by code_simp
  from every_throw_is_a_skip_and_no_signature_is_fatal
    [of toy_env "\<lparr>publicKey = [7], privateKey = [7]\<rparr>" "[owned, foreign_signed, owned]"
        "Some ''testnet''",
      OF toy_signInput_inputCount toy_signInput_independent]
  show ?thesis
    apply (simp only: f g)
    apply (simp add: u numeral_2_eq_2)
    apply blast
    done
qed

text \<open>
  The claim as stated, with the count taken over the inputs that match the key, fails
  where a matching input makes \<open>signInput\<close> throw for another reason: here the one
  input is the key's own and already carries a signature, the call is refused, and the
  run ends with ``No inputs were signed''. The script's own message lists such causes
  beside the wrong key (a missing \<open>witnessUtxo\<close>, another input type).
\<close>

theorem matching_input_is_skipped_counterexample:
  "toy_matches [7] [owned_signed] 0
   \<and> session toy_env (Some ''testnet'') \<lparr>publicKey = [7], privateKey = [7]\<rparr> [owned_signed] [] =
       Some \<lparr>exit_code = 2,
             trace = [call_signInput 0,
                      console_log_signInput_failed 0 ''Can not add duplicate data to array'',
                      console_error_no_inputs_signed]\<rparr>"
  by code_simp

text \<open>The two other outcomes of the loop on the small instance: nothing signed, all signed.\<close>

lemma toy_no_input_matches:
  "session toy_env (Some ''testnet'') \<lparr>publicKey = [7], privateKey = [7]\<rparr> [foreign, foreign] [] =
     Some \<lparr>exit_code = 2,
           trace = [call_signInput 0,
                    console_log_signInput_failed 0 ''Can not sign for this input with the key'',
                    call_signInput 1,
                    console_log_signInput_failed 1 ''Can not sign for this input with the key'',
                    console_error_no_inputs_signed]\<rparr>"
  by code_simp

lemma toy_all_signed:
  "session toy_env (Some ''testnet'') \<lparr>publicKey = [7], privateKey = [7]\<rparr> [owned, owned] [] =
     Some \<lparr>exit_code = 0,
           trace = [call_signInput 0, call_signInput 1, call_validateSignaturesOfAllInputs,
                    call_finalizeAllInputs, call_extractTransaction,
                    console_log_signed_tx ''id'' ''00'' ''cHNidP8='',
                    call_fetch ''https://blockstream.info/testnet/api/tx'' ''00'',
                    console_log_broadcast_success ''id'']\<rparr>"
  by code_simp

subsection \<open>Failures after validation\<close>

text \<open>
  What the script does when the library refuses to finalize or to extract: the error is
  printed, the run ends with code 1, and no transaction is printed or broadcast. Whether
  the library refuses, and in which state it leaves the PSBT, is the library's.
\<close>

lemma failed_finalization_ends_the_run:
  assumes "validateSignaturesOfAllInputs X (validator X) psbt = (Normal True, psbt1)"
    and "finalizeAllInputs X psbt1 = (Throw m, psbt2)"
  shows "validate_finalize_extract X netArg psbt tr =
           \<lparr>exit_code = 1,
            trace = tr @ [call_validateSignaturesOfAllInputs, call_finalizeAllInputs,
                          console_error_Error m]\<rparr>"
  using assms by (simp add: validate_finalize_extract_def fatal_def)

lemma failed_extraction_prints_no_transaction:
  assumes "validateSignaturesOfAllInputs X (validator X) psbt = (Normal True, psbt1)"
    and "finalizeAllInputs X psbt1 = (Normal u, psbt2)"
    and "extractTransaction X psbt2 = (Throw m, psbt3)"
  shows "validate_finalize_extract X netArg psbt tr =
           \<lparr>exit_code = 1,
            trace = tr @ [call_validateSignaturesOfAllInputs, call_finalizeAllInputs,
                          call_extractTransaction, console_error_Error m]\<rparr>"
  using assms by (simp add: validate_finalize_extract_def fatal_def)

lemma sign_and_broadcast_runs_session:
  assumes "\<not> falsy netArg" "\<not> falsy wif" "\<not> falsy psbtB64"
    and "getNetwork netArg = Normal net"
    and "ECPair_fromWIF X (or_empty wif) net = Normal kp"
    and "payments_p2wpkh_address X (publicKey kp) net = Normal addr"
    and "Psbt_fromBase64 X (or_empty psbtB64) net = Normal psbt"
  shows "sign_and_broadcast X netArg wif psbtB64 =
           session X netArg kp psbt [console_log_address addr]"
  using assms by (simp add: sign_and_broadcast_def)


section \<open>Network resolution\<close>

text \<open>
  C7, as the code has it. \<open>getNetwork\<close> lower-cases the selector and knows five names,
  \<open>bitcoin\<close> being a second name of mainnet: every selector whose lower-cased form is
  none of the five fails with ``Unknown network: '' followed by the selector as given,
  and no network is chosen for it.
\<close>

theorem getNetwork_rejects_unrecognised:
  assumes "toLowerCase (or_empty name)
             \<notin> set [''mainnet'', ''bitcoin'', ''testnet'', ''signet'', ''regtest'']"
  shows "getNetwork name = Throw (''Unknown network: '' @ template_arg name)"
  using assms by (simp add: getNetwork_def Let_def)

theorem getNetwork_rejects_unrecognised_witness:
  "getNetwork (Some ''Mainet'') = Throw ''Unknown network: Mainet''"
proof -
  have "toLowerCase (or_empty (Some ''Mainet''))
          \<notin> set [''mainnet'', ''bitcoin'', ''testnet'', ''signet'', ''regtest'']"
    by code_simp
  from getNetwork_rejects_unrecognised[OF this] show ?thesis
    by (simp add: template_arg_def)
qed

text \<open>
  The claim as stated, with four names compared as they are written, fails at
  \<open>bitcoin\<close>, which resolves to mainnet.
\<close>

theorem getNetwork_bitcoin_counterexample:
  "\<not> (\<forall>name. name \<notin> set [''mainnet'', ''testnet'', ''signet'', ''regtest'']
          \<longrightarrow> (\<exists>m. getNetwork (Some name) = Throw m))"
proof
  assume "\<forall>name. name \<notin> set [''mainnet'', ''testnet'', ''signet'', ''regtest'']
          \<longrightarrow> (\<exists>m. getNetwork (Some name) = Throw m)"
  moreover have "''bitcoin'' \<notin> set [''mainnet'', ''testnet'', ''signet'', ''regtest'']" by simp
  ultimately have "\<exists>m. getNetwork (Some ''bitcoin'') = Throw m" by blast
  moreover have "getNetwork (Some ''bitcoin'') = Normal networks_bitcoin" by code_simp
  ultimately show False by simp
qed

text \<open>
  The request builder does not call \<open>getNetwork\<close>: its conditional takes every
  selector other than \<open>testnet\<close> for mainnet.
\<close>

lemma select_network_falls_back_to_bitcoin:
  "toLowerCase (or_empty netArg) \<noteq> ''testnet'' \<Longrightarrow> select_network netArg = networks_bitcoin"
  by (simp add: select_network_def)

lemma select_network_signet: "select_network (Some ''signet'') = networks_bitcoin"
  by code_simp


section \<open>The request builder\<close>

lemma map_utxos_eq:
  "map_utxos X fromAddress net us =
     (if us = [] then Normal []
      else case address_toOutputScript X fromAddress net of
             Throw m \<Rightarrow> Throw m
           | Normal script \<Rightarrow>
               Normal (map (\<lambda>u. \<lparr>txid = u ''txid'', vout = u ''vout'',
                                  amount_sats = u ''value'',
                                  script_pubkey_hex = toString_hex script,
                                  sequence = null\<rparr>) us))"
  by (induction us) (auto simp: getP2WPKHScriptPubKeyHex_def split: completion.splits)

text \<open>The run that prints a transfer request, in full.\<close>

lemma transfer_request_is_printed:
  assumes "\<not> falsy netArg" "\<not> falsy wif" "\<not> falsy toAddress" "\<not> falsy amountBtc"
      "\<not> falsy feeRate"
    and "ECPair_fromWIF X (or_empty wif) (select_network netArg) = Normal kp"
    and "payments_p2wpkh_address X (publicKey kp) (select_network netArg) = Normal fromAddress"
    and "fetch_get X (utxo_url (select_network netArg) fromAddress) = Normal utxosRes"
    and "get_ok utxosRes"
    and "json utxosRes = Normal us"
    and "us \<noteq> []"
    and "address_toOutputScript X fromAddress (select_network netArg) = Normal script"
  shows "fetch_utxos_and_build X netArg wif toAddress amountBtc feeRate =
           \<lparr>exit_code = 0,
            trace = [console_log_derived_address fromAddress,
                     call_fetch_utxo (utxo_url (select_network netArg) fromAddress),
                     console_log_transferInput
                       \<lparr>network = toLowerCase (or_empty netArg),
                        to_address = or_empty toAddress,
                        amount_btc = or_empty amountBtc,
                        change_address = fromAddress,
                        fee_rate_sat_per_vb = parseInt X (or_empty feeRate) 10,
                        assume_taproot = False,
                        utxos = map (\<lambda>u. \<lparr>txid = u ''txid'', vout = u ''vout'',
                                            amount_sats = u ''value'',
                                            script_pubkey_hex = toString_hex script,
                                            sequence = null\<rparr>) us\<rparr>]\<rparr>"
  using assms by (simp add: fetch_utxos_and_build_def Let_def map_utxos_eq)

lemma toy_select_testnet: "select_network (Some ''TestNet'') = networks_testnet"
  by (simp add: select_network_def toLowerCase_def toLowerCase_char_def or_empty_def)

lemma toy_select_mainnet: "select_network (Some ''mainnet'') = networks_bitcoin"
  by (simp add: select_network_def toLowerCase_def toLowerCase_char_def or_empty_def)

lemma toy_build_run:
  "fetch_utxos_and_build toy_build_env (Some ''TestNet'') (Some ''cP'') (Some ''tb1qdest'')
       (Some ''0.00009'') (Some ''5'') =
     \<lparr>exit_code = 0,
      trace = [console_log_derived_address ''tb1qowner'',
               call_fetch_utxo ''https://blockstream.info/testnet/api/address/tb1qowner/utxo'',
               console_log_transferInput toy_transfer]\<rparr>"
  by (simp add: fetch_utxos_and_build_def toy_select_testnet falsy_def or_empty_def utxo_url_def
      toy_build_env_def toy_utxo_def toy_transfer_def getP2WPKHScriptPubKeyHex_def
      toString_hex_def hex_digit_def toLowerCase_def toLowerCase_char_def)

text \<open>
  C4. Whenever a transfer request is printed, its input descriptors are the explorer's
  outputs in order, one descriptor each, with the \<open>txid\<close>, \<open>vout\<close> and
  \<open>value\<close> properties of the output as they came and, in every descriptor, the hex
  of the output script of the address derived from the key on the selected network; the
  explorer's list is not empty. No other property of the answer is read.
\<close>

theorem every_descriptor_carries_the_owner_script:
  assumes "console_log_transferInput T \<in>
             set (trace (fetch_utxos_and_build X netArg wif toAddress amountBtc feeRate))"
  shows "\<exists>kp fromAddress utxosRes us script.
           ECPair_fromWIF X (or_empty wif) (select_network netArg) = Normal kp
         \<and> payments_p2wpkh_address X (publicKey kp) (select_network netArg) = Normal fromAddress
         \<and> fetch_get X (utxo_url (select_network netArg) fromAddress) = Normal utxosRes
         \<and> json utxosRes = Normal us \<and> us \<noteq> []
         \<and> address_toOutputScript X fromAddress (select_network netArg) = Normal script
         \<and> utxos T =
             map (\<lambda>u. \<lparr>txid = u ''txid'', vout = u ''vout'', amount_sats = u ''value'',
                        script_pubkey_hex = toString_hex script, sequence = null\<rparr>) us"
  using assms
  by (auto simp: fetch_utxos_and_build_def Let_def rejected_def map_utxos_eq
      split: if_splits completion.splits)

theorem every_descriptor_carries_the_owner_script_witness:
  "console_log_transferInput toy_transfer \<in>
     set (trace (fetch_utxos_and_build toy_build_env (Some ''TestNet'') (Some ''cP'')
                   (Some ''tb1qdest'') (Some ''0.00009'') (Some ''5'')))
   \<and> (\<exists>kp fromAddress utxosRes us script.
           ECPair_fromWIF toy_build_env (or_empty (Some ''cP'')) (select_network (Some ''TestNet''))
             = Normal kp
         \<and> payments_p2wpkh_address toy_build_env (publicKey kp) (select_network (Some ''TestNet''))
             = Normal fromAddress
         \<and> fetch_get toy_build_env (utxo_url (select_network (Some ''TestNet'')) fromAddress)
             = Normal utxosRes
         \<and> json utxosRes = Normal us \<and> us \<noteq> []
         \<and> address_toOutputScript toy_build_env fromAddress (select_network (Some ''TestNet''))
             = Normal script
         \<and> utxos toy_transfer =
             map (\<lambda>u. \<lparr>txid = u ''txid'', vout = u ''vout'', amount_sats = u ''value'',
                        script_pubkey_hex = toString_hex script, sequence = null\<rparr>) us)"
proof -
  have h: "console_log_transferInput toy_transfer \<in>
     set (trace (fetch_utxos_and_build toy_build_env (Some ''TestNet'') (Some ''cP'')
                   (Some ''tb1qdest'') (Some ''0.00009'') (Some ''5'')))"
    by (simp add: toy_build_run)
  from every_descriptor_carries_the_owner_script[OF h] h show ?thesis by simp
qed

text \<open>
  C6. With the arguments given, the key decoded, the address derived and the explorer
  answering with an empty list, the run ends with exit code 1 after the error
  ``No UTXOs found for this address.''; beside the line showing the derived address and
  the query, that is all it does, and no transfer request is printed.
\<close>

theorem empty_utxo_list_is_fatal:
  assumes "\<not> falsy netArg" "\<not> falsy wif" "\<not> falsy toAddress" "\<not> falsy amountBtc"
      "\<not> falsy feeRate"
    and "ECPair_fromWIF X (or_empty wif) (select_network netArg) = Normal kp"
    and "payments_p2wpkh_address X (publicKey kp) (select_network netArg) = Normal fromAddress"
    and "fetch_get X (utxo_url (select_network netArg) fromAddress) = Normal utxosRes"
    and "get_ok utxosRes"
    and "json utxosRes = Normal []"
  shows "fetch_utxos_and_build X netArg wif toAddress amountBtc feeRate =
           \<lparr>exit_code = 1,
            trace = [console_log_derived_address fromAddress,
                     call_fetch_utxo (utxo_url (select_network netArg) fromAddress),
                     console_error_no_utxos]\<rparr>
         \<and> (\<forall>T. console_log_transferInput T \<notin>
                 set (trace (fetch_utxos_and_build X netArg wif toAddress amountBtc feeRate)))"
  using assms
  by (simp add: fetch_utxos_and_build_def Let_def)


theorem empty_utxo_list_is_fatal_witness:
  "fetch_utxos_and_build toy_build_env (Some ''mainnet'') (Some ''cP'') (Some ''bc1qdest'')
       (Some ''0.00009'') (Some ''5'') =
     \<lparr>exit_code = 1,
      trace = [console_log_derived_address ''bc1qowner'',
               call_fetch_utxo ''https://blockstream.info/api/address/bc1qowner/utxo'',
               console_error_no_utxos]\<rparr>"
proof -
  have a: "\<not> falsy (Some ''mainnet'')" "\<not> falsy (Some ''cP'')" "\<not> falsy (Some ''bc1qdest'')"
    "\<not> falsy (Some ''0.00009'')" "\<not> falsy (Some ''5'')"
    by (simp_all add: falsy_def)
  have k: "ECPair_fromWIF toy_build_env (or_empty (Some ''cP'')) (select_network (Some ''mainnet''))
             = Normal \<lparr>publicKey = [7], privateKey = [7]\<rparr>"
    by (simp add: toy_build_env_def)
  have p: "payments_p2wpkh_address toy_build_env (publicKey \<lparr>publicKey = [7], privateKey = [7]\<rparr>)
             (select_network (Some ''mainnet'')) = Normal ''bc1qowner''"
    by (simp add: toy_build_env_def toy_select_mainnet)
  have f: "fetch_get toy_build_env (utxo_url (select_network (Some ''mainnet'')) ''bc1qowner'')
             = Normal \<lparr>get_ok = True, statusText = ''OK'', json = Normal []\<rparr>"
    by (simp add: toy_build_env_def toy_select_mainnet utxo_url_def)
  have g: "get_ok \<lparr>get_ok = True, statusText = ''OK'', json = Normal ([] :: toy_json utxo list)\<rparr>"
    by simp
  have j: "json \<lparr>get_ok = True, statusText = ''OK'', json = Normal ([] :: toy_json utxo list)\<rparr>
             = Normal []"
    by simp
  from empty_utxo_list_is_fatal[OF a k p f g j]
  show ?thesis by (simp add: toy_select_mainnet utxo_url_def)
qed

text \<open>
  The change address of a printed request is the address the library derives from the
  public key of the given WIF, on the network the conditional of lines 37--39 picks; the
  destination, the amount and the fee rate have no part in it.
\<close>

lemma change_address_is_derived_on_select_network:
  assumes "console_log_transferInput T \<in>
             set (trace (fetch_utxos_and_build X netArg wif toAddress amountBtc feeRate))"
  shows "\<exists>kp. ECPair_fromWIF X (or_empty wif) (select_network netArg) = Normal kp
         \<and> payments_p2wpkh_address X (publicKey kp) (select_network netArg)
             = Normal (change_address T)"
  using assms
  by (auto simp: fetch_utxos_and_build_def Let_def rejected_def
      split: if_splits completion.splits)

text \<open>
  That conditional knows \<open>testnet\<close> only, so the network it picks is not always the
  one the selector names.
\<close>

lemma select_network_regtest: "select_network (Some ''regtest'') = networks_bitcoin"
  by (simp add: select_network_def toLowerCase_def toLowerCase_char_def or_empty_def)

text \<open>
  C10. The change address is to be the key's address on the selected network. With the
  selector \<open>regtest\<close> the script decodes the key and derives the address for
  mainnet: the request it prints is labelled \<open>regtest\<close> and carries the mainnet
  address as change address, where the key's regtest address is another one.
\<close>

theorem regtest_request_carries_the_mainnet_address:
  "fetch_utxos_and_build toy_funded_env (Some ''regtest'') (Some ''K'') (Some ''bcrt1qdest'')
       (Some ''0.00009'') (Some ''5'') =
     \<lparr>exit_code = 0,
      trace = [console_log_derived_address ''bc1qowner'',
               call_fetch_utxo ''https://blockstream.info/api/address/bc1qowner/utxo'',
               console_log_transferInput toy_regtest_transfer]\<rparr>
   \<and> network toy_regtest_transfer = ''regtest''
   \<and> change_address toy_regtest_transfer = ''bc1qowner''
   \<and> payments_p2wpkh_address toy_funded_env [7] networks_regtest = Normal ''bcrt1qowner''"
  by (simp add: fetch_utxos_and_build_def select_network_regtest falsy_def or_empty_def utxo_url_def
      toy_funded_env_def toy_build_env_def toy_utxo_def toy_regtest_transfer_def
      getP2WPKHScriptPubKeyHex_def toString_hex_def hex_digit_def toLowerCase_def
      toLowerCase_char_def)


section \<open>The inspection\<close>

lemma inspect_inputs_testnet_only:
  "inspect_inputs (X\<lparr>address_fromOutputScript :=
                      (\<lambda>script net. address_fromOutputScript X script networks_testnet)\<rparr>) idx inputs tr
     = inspect_inputs X idx inputs tr"
  by (induction X idx inputs tr rule: inspect_inputs.induct)
     (auto split: option.splits completion.splits)

lemma inspect_psbt_testnet_only:
  "inspect_psbt (X\<lparr>address_fromOutputScript :=
                    (\<lambda>script net. address_fromOutputScript X script networks_testnet)\<rparr>) b
     = inspect_psbt X b"
  by (simp add: inspect_psbt_def inspect_inputs_testnet_only split: completion.splits)

text \<open>
  C9. The inspection has no network parameter and encodes every address for testnet. On
  a PSBT whose input spends a P2WPKH output the printed address has the testnet prefix,
  whatever network the PSBT was made for.
\<close>

theorem inspect_psbt_decodes_for_testnet:
  "inspect_psbt toy_inspect_env (Some ''cHNidP8='') =
     \<lparr>exit_code = 0,
      trace = [console_log_Input 0, console_log_Value 20000,
               console_log_ScriptPubKey_hex
                 ''0014abababababababababababababababababababab'',
               console_log_Address ''tb1qabababababababababababababababababababab'']\<rparr>"
  by (simp add: inspect_psbt_def toy_inspect_env_def toString_hex_def hex_digit_def)

end
